theory Spec2Isabelle
  imports Main
begin

section \<open>Python values and string primitives used by the program\<close>

text \<open>
  A Python \<open>str\<close> is modelled as a \<open>string\<close> whose characters are the code points
  below 256.  The values that \<open>json.loads\<close> and \<open>response.json()\<close> hand to the program
  are modelled by \<open>json\<close>; \<open>JNull\<close> is Python's \<open>None\<close>, and a \<open>JObj\<close> lists the items
  of a \<open>dict\<close> (distinct keys).  Floating-point members are not represented.
\<close>

datatype json =
    JNull
  | JBool bool
  | JInt int
  | JStr string
  | JArr "json list"
  | JObj "(string \<times> json) list"

datatype exn =
    KeyError
  | TypeError
  | AttributeError
  | IndexError
  | ValueError
  | UnboundLocalError
  | JSONDecodeError
  | OtherException string

text \<open>\<open>str.isspace\<close> on the code points below 256.\<close>

definition isspace :: "char \<Rightarrow> bool" where
  "isspace c =
     (let n = (of_char c :: nat)
      in (9 \<le> n \<and> n \<le> 13) \<or> (28 \<le> n \<and> n \<le> 32) \<or> n = 133 \<or> n = 160)"

text \<open>\<open>s.strip()\<close> and \<open>s.strip(chars)\<close>.\<close>

definition py_strip :: "string \<Rightarrow> string" where
  "py_strip s = rev (dropWhile isspace (rev (dropWhile isspace s)))"

definition strip_chars :: "string \<Rightarrow> string \<Rightarrow> string" where
  "strip_chars cs s =
     rev (dropWhile (\<lambda>c. c \<in> set cs) (rev (dropWhile (\<lambda>c. c \<in> set cs) s)))"

text \<open>\<open>str.lower\<close> on the code points below 256.\<close>

definition to_lower :: "char \<Rightarrow> char" where
  "to_lower c =
     (let n = (of_char c :: nat)
      in if (65 \<le> n \<and> n \<le> 90) \<or> (192 \<le> n \<and> n \<le> 214) \<or> (216 \<le> n \<and> n \<le> 222)
         then char_of (n + 32) else c)"

definition py_lower :: "string \<Rightarrow> string" where
  "py_lower s = map to_lower s"

definition startswith :: "string \<Rightarrow> string \<Rightarrow> bool" where
  "startswith p s = (take (length p) s = p)"

definition endswith :: "string \<Rightarrow> string \<Rightarrow> bool" where
  "endswith p s = (length p \<le> length s \<and> drop (length s - length p) s = p)"

text \<open>\<open>sub in s\<close> for strings.\<close>

fun contains :: "string \<Rightarrow> string \<Rightarrow> bool" where
  "contains sub [] = (sub = [])"
| "contains sub (c # cs) = (startswith sub (c # cs) \<or> contains sub cs)"

text \<open>
  \<open>s.split(sep)\<close>: the occurrences of \<open>sep\<close> are found from left to right and do not
  overlap.  Python raises \<open>ValueError\<close> for an empty separator; every separator of this
  program is a non-empty literal, and the model returns the whole text for an empty one.
\<close>

function py_split :: "string \<Rightarrow> string \<Rightarrow> string list" where
  "py_split sep [] = [[]]"
| "py_split sep (c # cs) =
     (if sep \<noteq> [] \<and> startswith sep (c # cs)
      then [] # py_split sep (drop (length sep) (c # cs))
      else (case py_split sep cs of
              [] \<Rightarrow> [[c]]
            | p # ps \<Rightarrow> (c # p) # ps))"
  by pat_completeness auto
termination
  by (relation "measure (\<lambda>(sep, s). length s)") auto

text \<open>\<open>xs[i]\<close> for a list and a non-negative index.\<close>

definition index :: "'a list \<Rightarrow> nat \<Rightarrow> exn + 'a" where
  "index xs i = (if i < length xs then Inr (xs ! i) else Inl IndexError)"

text \<open>Truthiness, \<open>len\<close>, subscripts and \<open>dict.get\<close> on the values above.\<close>

fun truthy :: "json \<Rightarrow> bool" where
  "truthy JNull = False"
| "truthy (JBool b) = b"
| "truthy (JInt i) = (i \<noteq> 0)"
| "truthy (JStr s) = (s \<noteq> [])"
| "truthy (JArr xs) = (xs \<noteq> [])"
| "truthy (JObj kvs) = (kvs \<noteq> [])"

fun py_len :: "json \<Rightarrow> exn + nat" where
  "py_len (JStr s) = Inr (length s)"
| "py_len (JArr xs) = Inr (length xs)"
| "py_len (JObj kvs) = Inr (length kvs)"
| "py_len _ = Inl TypeError"

fun subscript_int :: "json \<Rightarrow> nat \<Rightarrow> exn + json" where
  "subscript_int (JArr xs) i = index xs i"
| "subscript_int (JStr s) i = (if i < length s then Inr (JStr [s ! i]) else Inl IndexError)"
| "subscript_int (JObj kvs) i = Inl KeyError"
| "subscript_int _ i = Inl TypeError"

fun subscript_str :: "json \<Rightarrow> string \<Rightarrow> exn + json" where
  "subscript_str (JObj kvs) k = (case map_of kvs k of None \<Rightarrow> Inl KeyError | Some v \<Rightarrow> Inr v)"
| "subscript_str _ k = Inl TypeError"

fun dict_get :: "json \<Rightarrow> string \<Rightarrow> json \<Rightarrow> exn + json" where
  "dict_get (JObj kvs) k d = (case map_of kvs k of None \<Rightarrow> Inr d | Some v \<Rightarrow> Inr v)"
| "dict_get _ k d = Inl AttributeError"

text \<open>\<open>xs[1:]\<close>.\<close>

fun slice_from_1 :: "json \<Rightarrow> exn + json list" where
  "slice_from_1 (JArr xs) = Inr (drop 1 xs)"
| "slice_from_1 (JStr s) = Inr (map (\<lambda>c. JStr [c]) (drop 1 s))"
| "slice_from_1 _ = Inl TypeError"

text \<open>\<open>v.lower()\<close> and \<open>v.split(sep)\<close> exist on strings only.\<close>

fun lower_of :: "json \<Rightarrow> exn + string" where
  "lower_of (JStr s) = Inr (py_lower s)"
| "lower_of _ = Inl AttributeError"

fun split_of :: "json \<Rightarrow> string \<Rightarrow> exn + string list" where
  "split_of (JStr s) sep = Inr (py_split sep s)"
| "split_of _ sep = Inl AttributeError"


section \<open>The environment and the observable state\<close>

text \<open>
  Everything outside the program is a field of \<open>world\<close>: the two text-generation models
  (their reply text, or the exception that the request or reading \<open>response.text\<close>
  raises), \<open>json.loads\<close>, the \<open>PEXELS_API_KEY\<close> environment variable, \<open>requests.get\<close>,
  writing a file, and the three calls that read or write the disk after a download:
  \<open>add_picture\<close> (which raises when the file is not a readable image), \<open>os.remove\<close> and
  \<open>presentation.save\<close>; for these the field gives the exception raised, if any.  The
  services may answer differently over time, so they also read the events so far.  The prompts are fixed templates around the arguments, and the
  models are functions of those arguments.
\<close>

record http_response =
  status_error :: "exn option"
  json_result :: "exn + json"
  resp_content :: string

datatype http_request = Request json "(string \<times> json) list" "(string \<times> json) list"

datatype message =
    MsgGeneratingOutline
  | MsgNotJsonArray
  | MsgJsonDecodeError exn string
  | MsgOutlineError exn
  | MsgDescriptionError exn
  | MsgNoPexelsKey
  | MsgNoImagesFound string
  | MsgDownloadError exn
  | MsgFailedOutline
  | MsgCreatingTitleSlide
  | MsgCreatingSlide nat nat json string
  | MsgPresentationSaved string

datatype event =
    TextRequest string int
  | VisionRequest json
  | JsonLoads string
  | HttpGet http_request
  | FileWrite string string
  | AddPicture string
  | FileRemove string
  | SaveFile string
  | Print message

record world =
  text_model :: "event list \<Rightarrow> string \<Rightarrow> int \<Rightarrow> exn + string"
  vision_model :: "event list \<Rightarrow> json \<Rightarrow> exn + string"
  json_loads :: "string \<Rightarrow> exn + json"
  pexels_api_key :: "string option"
  requests_get :: "event list \<Rightarrow> http_request \<Rightarrow> exn + http_response"
  file_write :: "event list \<Rightarrow> string \<Rightarrow> string \<Rightarrow> exn option"
  add_picture :: "event list \<Rightarrow> string \<Rightarrow> exn option"
  os_remove :: "event list \<Rightarrow> string \<Rightarrow> exn option"
  save_file :: "event list \<Rightarrow> string \<Rightarrow> exn option"

text \<open>
  A slide as the presentation library holds it after the renderer's calls: the layout
  index, the paragraphs of the title, the paragraphs of placeholder 1 (none on a layout
  without it), and the optional text box and picture.  Font sizes are in points, lengths
  in EMU (\<open>Inches(1) = 914400\<close>).
\<close>

record para =
  para_text :: string
  font_pt :: "int option"
  font_bold :: bool
  font_italic :: bool
  font_rgb :: "(int \<times> int \<times> int) option"
  align_center :: bool

record slide =
  layout :: nat
  title :: "para list"
  body :: "para list"
  body_wrap :: bool
  body_width :: "int option"
  textbox :: "((int \<times> int \<times> int \<times> int) \<times> para) option"
  picture :: "(string \<times> int \<times> int \<times> int) option"

text \<open>
  The generator object: the slides of \<open>self.presentation\<close>, the file written by
  \<open>save\<close>, and the trace of the calls made to the environment and of the lines printed.
\<close>

record generator =
  slides :: "slide list"
  saved :: "(string \<times> slide list) option"
  trace :: "event list"

definition emit :: "event \<Rightarrow> generator \<Rightarrow> generator" where
  "emit e g = g\<lparr>trace := trace g @ [e]\<rparr>"

definition add_slide :: "slide \<Rightarrow> generator \<Rightarrow> generator" where
  "add_slide s g = g\<lparr>slides := slides g @ [s]\<rparr>"

definition PPTGenerator_init :: "string option \<Rightarrow> exn + generator" where
  "PPTGenerator_init api_key =
     (case api_key of
        None \<Rightarrow> Inl ValueError
      | Some k \<Rightarrow> if k = [] then Inl ValueError
                  else Inr \<lparr>slides = [], saved = None, trace = []\<rparr>)"

section \<open>Outline generator\<close>

text \<open>Lines 39 to 42: the optional code fence is cut away.\<close>

definition strip_fences :: "string \<Rightarrow> exn + string" where
  "strip_fences content =
     (if contains ''```json'' content then
        (case index (py_split ''```json'' content) 1 of
           Inl e \<Rightarrow> Inl e
         | Inr a \<Rightarrow>
            (case index (py_split ''```'' a) 0 of
               Inl e \<Rightarrow> Inl e
             | Inr b \<Rightarrow> Inr (py_strip b)))
      else if contains ''```'' content then
        (case index (py_split ''```'' content) 1 of
           Inl e \<Rightarrow> Inl e
         | Inr a \<Rightarrow> Inr (py_strip a))
      else Inr content)"

text \<open>
  The two \<open>except\<close> clauses.  The first prints \<open>content\<close>: when the exception came before
  \<open>content\<close> was assigned, reading it raises \<open>UnboundLocalError\<close> inside the handler,
  and that exception leaves the function.
\<close>

definition outline_handler ::
  "exn \<Rightarrow> string option \<Rightarrow> generator \<Rightarrow> exn + (json \<times> generator)" where
  "outline_handler e content g =
     (if e = JSONDecodeError then
        (case content of
           None \<Rightarrow> Inl UnboundLocalError
         | Some c \<Rightarrow> Inr (JNull, emit (Print (MsgJsonDecodeError e c)) g))
      else Inr (JNull, emit (Print (MsgOutlineError e)) g))"

definition generate_content_outline ::
  "world \<Rightarrow> generator \<Rightarrow> string \<Rightarrow> int \<Rightarrow> exn + (json \<times> generator)" where
  "generate_content_outline W g topic num_slides =
     (let g1 = emit (TextRequest topic num_slides) g in
      case text_model W (trace g) topic num_slides of
        Inl e \<Rightarrow> outline_handler e None g1
      | Inr text \<Rightarrow>
         (case strip_fences (py_strip text) of
            Inl e \<Rightarrow> outline_handler e (Some (py_strip text)) g1
          | Inr content \<Rightarrow>
             if \<not> startswith ''['' content \<or> \<not> endswith '']'' content
             then Inr (JNull, emit (Print MsgNotJsonArray) g1)
             else
               (let g2 = emit (JsonLoads content) g1 in
                case json_loads W content of
                  Inl e \<Rightarrow> outline_handler e (Some content) g2
                | Inr v \<Rightarrow> Inr (v, g2))))"

section \<open>Image-query generator and photo fetcher\<close>

definition generate_image_description ::
  "world \<Rightarrow> generator \<Rightarrow> json \<Rightarrow> string \<times> generator" where
  "generate_image_description W g slide_content =
     (let g1 = emit (VisionRequest slide_content) g in
      case vision_model W (trace g) slide_content of
        Inl e \<Rightarrow> (''abstract technology background'', emit (Print (MsgDescriptionError e)) g1)
      | Inr text \<Rightarrow> (py_strip text, g1))"

definition search_request :: "string \<Rightarrow> string \<Rightarrow> http_request" where
  "search_request key query =
     Request (JStr ''[https://api.pexels.com/v1/search](https://api.pexels.com/v1/search)'')
       [(''Authorization'', JStr key)]
       [(''query'', JStr query), (''per_page'', JInt 1), (''orientation'', JStr ''landscape'')]"

text \<open>\<open>data["photos"][0]["src"]["original"]\<close>.\<close>

definition original_url :: "json \<Rightarrow> exn + json" where
  "original_url data =
     (case subscript_str data ''photos'' of
        Inl e \<Rightarrow> Inl e
      | Inr photos \<Rightarrow>
         (case subscript_int photos 0 of
            Inl e \<Rightarrow> Inl e
          | Inr photo \<Rightarrow>
             (case subscript_str photo ''src'' of
                Inl e \<Rightarrow> Inl e
              | Inr src \<Rightarrow> subscript_str src ''original'')))"

definition download_failed :: "exn \<Rightarrow> generator \<Rightarrow> string option \<times> generator" where
  "download_failed e g = (None, emit (Print (MsgDownloadError e)) g)"

text \<open>\<open>requests.get\<close> followed by \<open>raise_for_status\<close>.\<close>

definition get_checked ::
  "world \<Rightarrow> generator \<Rightarrow> http_request \<Rightarrow> (exn + http_response) \<times> generator" where
  "get_checked W g req =
     (let g1 = emit (HttpGet req) g in
      case requests_get W (trace g) req of
        Inl e \<Rightarrow> (Inl e, g1)
      | Inr r \<Rightarrow>
         (case status_error r of
            Some e \<Rightarrow> (Inl e, g1)
          | None \<Rightarrow> (Inr r, g1)))"

definition download_image ::
  "world \<Rightarrow> generator \<Rightarrow> string \<Rightarrow> string \<Rightarrow> string option \<times> generator" where
  "download_image W g query save_path =
     (case pexels_api_key W of
        None \<Rightarrow> (None, emit (Print MsgNoPexelsKey) g)
      | Some key \<Rightarrow>
         if key = [] then (None, emit (Print MsgNoPexelsKey) g)
         else
           (case get_checked W g (search_request key query) of
              (Inl e, g1) \<Rightarrow> download_failed e g1
            | (Inr response, g1) \<Rightarrow>
               (case json_result response of
                  Inl e \<Rightarrow> download_failed e g1
                | Inr data \<Rightarrow>
                   (case dict_get data ''photos'' JNull of
                      Inl e \<Rightarrow> download_failed e g1
                    | Inr photos \<Rightarrow>
                       if \<not> truthy photos
                       then (None, emit (Print (MsgNoImagesFound query)) g1)
                       else
                         (case original_url data of
                            Inl e \<Rightarrow> download_failed e g1
                          | Inr image_url \<Rightarrow>
                             (case get_checked W g1 (Request image_url [] []) of
                                (Inl e, g2) \<Rightarrow> download_failed e g2
                              | (Inr image_response, g2) \<Rightarrow>
                                 (let g3 = emit (FileWrite save_path (resp_content image_response)) g2 in
                                  case file_write W (trace g2) save_path
                                         (resp_content image_response) of
                                    Some e \<Rightarrow> download_failed e g3
                                  | None \<Rightarrow> (Some save_path, g3))))))))"

section \<open>Slide assembler\<close>

text \<open>
  Assigning \<open>shape.text\<close> splits the value at newlines into paragraphs and raises
  \<open>AttributeError\<close> when the value is not a \<open>str\<close>; assigning the text of one paragraph
  raises \<open>TypeError\<close> when it is not a \<open>str\<close>.  The split yields at least one paragraph,
  so \<open>paragraphs[0]\<close> exists wherever the program formats it.  An untouched placeholder
  and a frame after \<open>text_frame.clear()\<close> hold one empty paragraph.  Each renderer creates
  its slide first and then fills it; the model records the finished slide in the deck
  when the renderer returns, since an exception discards the generator and the
  environment reads the trace only.
\<close>

definition plain :: "string \<Rightarrow> para" where
  "plain s = \<lparr>para_text = s, font_pt = None, font_bold = False, font_italic = False,
              font_rgb = None, align_center = False\<rparr>"

fun shape_text :: "json \<Rightarrow> exn + para list" where
  "shape_text (JStr s) = Inr (map plain (py_split ''\<newline>'' s))"
| "shape_text _ = Inl AttributeError"

fun paragraph_text :: "json \<Rightarrow> exn + para" where
  "paragraph_text (JStr s) = Inr (plain s)"
| "paragraph_text _ = Inl TypeError"

fun format_first :: "(para \<Rightarrow> para) \<Rightarrow> para list \<Rightarrow> para list" where
  "format_first f [] = []"
| "format_first f (p # ps) = f p # ps"

definition blank_slide :: "nat \<Rightarrow> para list \<Rightarrow> para list \<Rightarrow> slide" where
  "blank_slide l t b = \<lparr>layout = l, title = t, body = b, body_wrap = False, body_width = None,
                        textbox = None, picture = None\<rparr>"

definition create_title_slide :: "generator \<Rightarrow> json \<Rightarrow> json \<Rightarrow> exn + generator" where
  "create_title_slide g title_arg subtitle =
     (case shape_text title_arg of
        Inl e \<Rightarrow> Inl e
      | Inr t \<Rightarrow>
         (let s = blank_slide 0
                    (format_first
                       (\<lambda>p. p\<lparr>font_pt := Some 40, font_bold := True,
                               font_rgb := Some (0, 0, 128), align_center := True\<rparr>) t)
                    [plain []]
          in if truthy subtitle then
               (case shape_text subtitle of
                  Inl e \<Rightarrow> Inl e
                | Inr sub \<Rightarrow>
                   Inr (add_slide
                          (s\<lparr>body := format_first
                                       (\<lambda>p. p\<lparr>font_pt := Some 24, font_italic := True,
                                               font_rgb := Some (105, 105, 105),
                                               align_center := True\<rparr>) sub\<rparr>) g))
             else Inr (add_slide s g)))"

definition bullet :: "string \<Rightarrow> para" where
  "bullet point = (plain (py_strip (strip_chars ''- '' point)))\<lparr>font_pt := Some 18\<rparr>"

text \<open>
  \<open>slide.shapes.add_picture(img_path, ...)\<close> followed by \<open>os.remove(img_path)\<close>: neither
  call is guarded, so an exception of either leaves the renderer.
\<close>

definition place_and_remove :: "world \<Rightarrow> generator \<Rightarrow> string \<Rightarrow> exn + generator" where
  "place_and_remove W g img_path =
     (let g1 = emit (AddPicture img_path) g in
      case add_picture W (trace g) img_path of
        Some e \<Rightarrow> Inl e
      | None \<Rightarrow>
         (let g2 = emit (FileRemove img_path) g1 in
          case os_remove W (trace g1) img_path of
            Some e \<Rightarrow> Inl e
          | None \<Rightarrow> Inr g2))"

definition create_content_slide ::
  "world \<Rightarrow> generator \<Rightarrow> json \<Rightarrow> json \<Rightarrow> bool \<Rightarrow> exn + generator" where
  "create_content_slide W g title_arg content include_image =
     (case shape_text title_arg of
        Inl e \<Rightarrow> Inl e
      | Inr t \<Rightarrow>
         (case split_of content ''\<newline>'' of
            Inl e \<Rightarrow> Inl e
          | Inr points \<Rightarrow>
             (let s = (blank_slide 1
                         (format_first
                            (\<lambda>p. p\<lparr>font_pt := Some 32, font_bold := True,
                                    font_rgb := Some (0, 0, 128)\<rparr>) t)
                         (plain [] # map bullet points))
                        \<lparr>body_wrap := True\<rparr>
              in if include_image then
                   (case generate_image_description W g content of
                      (image_desc, g1) \<Rightarrow>
                        (case download_image W g1 image_desc ''temp_img.jpg'' of
                           (None, g2) \<Rightarrow> Inr (add_slide s g2)
                         | (Some img_path, g2) \<Rightarrow>
                             if img_path \<noteq> [] then
                               (case place_and_remove W g2 img_path of
                                  Inl e \<Rightarrow> Inl e
                                | Inr g3 \<Rightarrow>
                                   Inr (add_slide
                                          (s\<lparr>body_width := Some 5029200,
                                             picture :=
                                               Some (img_path, 3886200, 1600200, 3657600)\<rparr>)
                                          g3))
                             else Inr (add_slide s g2)))
                 else Inr (add_slide s g))))"

definition create_image_slide ::
  "world \<Rightarrow> generator \<Rightarrow> json \<Rightarrow> json \<Rightarrow> string \<Rightarrow> exn + generator" where
  "create_image_slide W g title_arg content img_query =
     (case shape_text title_arg of
        Inl e \<Rightarrow> Inl e
      | Inr t \<Rightarrow>
         (case (if truthy content
                then (case paragraph_text content of
                        Inl e \<Rightarrow> Inl e
                      | Inr c \<Rightarrow>
                         Inr (Some ((457200, 5486400, 8229600, 914400),
                                    c\<lparr>font_pt := Some 16, align_center := True\<rparr>)))
                else Inr None) of
            Inl e \<Rightarrow> Inl e
          | Inr box \<Rightarrow>
             (let s = (blank_slide 5 (format_first (\<lambda>p. p\<lparr>align_center := True\<rparr>) t) [])
                        \<lparr>textbox := box\<rparr>
              in case download_image W g img_query ''temp_img.jpg'' of
                   (None, g1) \<Rightarrow> Inr (add_slide s g1)
                 | (Some img_path, g1) \<Rightarrow>
                     if img_path \<noteq> [] then
                       (case place_and_remove W g1 img_path of
                          Inl e \<Rightarrow> Inl e
                        | Inr g2 \<Rightarrow>
                           Inr (add_slide
                                  (s\<lparr>picture := Some (img_path, 914400, 1371600, 4114800)\<rparr>)
                                  g2))
                     else Inr (add_slide s g1))))"

section \<open>The build\<close>

text \<open>The body of the loop of \<open>generate_presentation\<close> for one element of \<open>outline[1:]\<close>.\<close>

definition render_slide ::
  "world \<Rightarrow> nat \<Rightarrow> nat \<Rightarrow> json \<Rightarrow> generator \<Rightarrow> exn + generator" where
  "render_slide W n_total i slide_info g =
     (case dict_get slide_info ''slide_type'' (JStr ''content'') of
        Inl e \<Rightarrow> Inl e
      | Inr ty \<Rightarrow>
         (case lower_of ty of
            Inl e \<Rightarrow> Inl e
          | Inr slide_type \<Rightarrow>
             (case dict_get slide_info ''title'' (JStr []) of
                Inl e \<Rightarrow> Inl e
              | Inr title_arg \<Rightarrow>
                 (case dict_get slide_info ''content'' (JStr []) of
                    Inl e \<Rightarrow> Inl e
                  | Inr content \<Rightarrow>
                     (let g1 = emit (Print (MsgCreatingSlide (i + 1) n_total title_arg slide_type)) g
                      in if slide_type = ''title'' then create_title_slide g1 title_arg content
                         else if slide_type = ''image'' then
                           (case generate_image_description W g1 content of
                              (img_query, g2) \<Rightarrow>
                                create_image_slide W g2 title_arg content img_query)
                         else if slide_type = ''conclusion'' then
                           create_content_slide W g1 title_arg content False
                         else create_content_slide W g1 title_arg content True)))))"

text \<open>The loop over \<open>enumerate(outline[1:], start=1)\<close>.\<close>

fun slide_loop :: "world \<Rightarrow> nat \<Rightarrow> nat \<Rightarrow> json list \<Rightarrow> generator \<Rightarrow> exn + generator" where
  "slide_loop W n_total i [] g = Inr g"
| "slide_loop W n_total i (slide_info # rest) g =
     (case render_slide W n_total i slide_info g of
        Inl e \<Rightarrow> Inl e
      | Inr g' \<Rightarrow> slide_loop W n_total (i + 1) rest g')"

text \<open>
  The effect of a \<open>presentation.save(output_file)\<close> that returns.  The call is not
  guarded: when it raises, the exception leaves \<open>generate_presentation\<close>.
\<close>

definition save_presentation :: "string \<Rightarrow> generator \<Rightarrow> generator" where
  "save_presentation output_file g =
     emit (SaveFile output_file) (g\<lparr>saved := Some (output_file, slides g)\<rparr>)"

definition generate_presentation ::
  "world \<Rightarrow> generator \<Rightarrow> string \<Rightarrow> int \<Rightarrow> string \<Rightarrow> exn + (string option \<times> generator)" where
  "generate_presentation W g topic num_slides output_file =
     (case generate_content_outline W (emit (Print MsgGeneratingOutline) g) topic num_slides of
        Inl e \<Rightarrow> Inl e
      | Inr (outline, g1) \<Rightarrow>
         if \<not> truthy outline then Inr (None, emit (Print MsgFailedOutline) g1)
         else
           (case py_len outline of
              Inl e \<Rightarrow> Inl e
            | Inr n \<Rightarrow>
               if n < 1 then Inr (None, emit (Print MsgFailedOutline) g1)
               else
                 (case subscript_int outline 0 of
                    Inl e \<Rightarrow> Inl e
                  | Inr first \<Rightarrow>
                     (case subscript_str first ''title'' of
                        Inl e \<Rightarrow> Inl e
                      | Inr first_title \<Rightarrow>
                         (case dict_get first ''content'' (JStr []) of
                            Inl e \<Rightarrow> Inl e
                          | Inr first_content \<Rightarrow>
                             (case create_title_slide (emit (Print MsgCreatingTitleSlide) g1)
                                     first_title first_content of
                                Inl e \<Rightarrow> Inl e
                              | Inr g2 \<Rightarrow>
                                 (case slice_from_1 outline of
                                    Inl e \<Rightarrow> Inl e
                                  | Inr rest \<Rightarrow>
                                     (case slide_loop W n 1 rest g2 of
                                        Inl e \<Rightarrow> Inl e
                                      | Inr g3 \<Rightarrow>
                                         (case save_file W (trace g3) output_file of
                                            Some e \<Rightarrow> Inl e
                                          | None \<Rightarrow>
                                             Inr (Some output_file,
                                                  emit (Print (MsgPresentationSaved output_file))
                                                    (save_presentation output_file g3)))))))))))"

section \<open>Concrete environments and inputs\<close>

text \<open>
  A generator as the constructor leaves it, an environment in which every service and
  every disk operation fails, and the \<open>```json\<close> fence around a text.  They are the
  inputs at which the theorems below are instantiated.
\<close>

definition fresh :: generator where
  "fresh = \<lparr>slides = [], saved = None, trace = []\<rparr>"

definition offline :: world where
  "offline =
     \<lparr>text_model = (\<lambda>tr topic n. Inl (OtherException ''unreachable'')),
      vision_model = (\<lambda>tr c. Inl (OtherException ''unreachable'')),
      json_loads = (\<lambda>s. Inl JSONDecodeError),
      pexels_api_key = None,
      requests_get = (\<lambda>tr r. Inl (OtherException ''unreachable'')),
      file_write = (\<lambda>tr p c. Some (OtherException ''read-only'')),
      add_picture = (\<lambda>tr p. Some (OtherException ''unreadable'')),
      os_remove = (\<lambda>tr p. Some (OtherException ''read-only'')),
      save_file = (\<lambda>tr p. Some (OtherException ''read-only''))\<rparr>"

definition wrap_json_fence :: "string \<Rightarrow> string" where
  "wrap_json_fence t = ''```json\<newline>'' @ t @ ''\<newline>```''"

definition object_loads :: "string \<Rightarrow> exn + json" where
  "object_loads s = Inr (JObj [(''a'', JInt 1)])"

definition object_reply :: world where
  "object_reply =
     offline\<lparr>text_model := (\<lambda>tr topic n. Inr ''{\"a\":1}''), json_loads := object_loads\<rparr>"

definition plain_fenced :: string where
  "plain_fenced = ''```\<newline>[1]\<newline>```''"

definition loads_one :: "string \<Rightarrow> exn + json" where
  "loads_one s = (if s = ''[1]'' then Inr (JArr [JInt 1]) else Inl JSONDecodeError)"

definition reply_world :: "string \<Rightarrow> world" where
  "reply_world text =
     offline\<lparr>text_model := (\<lambda>tr topic n. Inr text), json_loads := loads_one\<rparr>"

definition photo_response :: "json \<Rightarrow> http_response" where
  "photo_response data = \<lparr>status_error = None, json_result = Inr data, resp_content = ''JPEG''\<rparr>"

definition photo_world :: "json \<Rightarrow> world" where
  "photo_world data =
     offline\<lparr>pexels_api_key := Some ''key'',
             requests_get := (\<lambda>tr r. Inr (photo_response data)),
             file_write := (\<lambda>tr p c. None)\<rparr>"

definition malformed_photos :: json where
  "malformed_photos = JObj [(''photos'', JArr [JObj []])]"

definition one_photo :: json where
  "one_photo = JObj [(''photos'', JArr [JObj [(''src'', JObj [(''original'', JStr ''https://img/1.jpg'')])]])]"

definition empty_photos :: json where
  "empty_photos = JObj [(''photos'', JArr [])]"

definition capital_title_spec :: json where
  "capital_title_spec =
     JObj [(''title'', JStr ''Part''), (''content'', JStr ''text''), (''slide_type'', JStr ''Title'')]"

definition shouting_image_spec :: "(string \<times> json) list" where
  "shouting_image_spec =
     [(''title'', JStr ''Part''), (''content'', JStr ''text''), (''slide_type'', JStr ''IMAGE'')]"

definition quiet_image_spec :: "(string \<times> json) list" where
  "quiet_image_spec =
     [(''title'', JStr ''Part''), (''content'', JStr ''text''), (''slide_type'', JStr ''image'')]"

definition summary_spec :: "(string \<times> json) list" where
  "summary_spec =
     [(''title'', JStr ''Part''), (''content'', JStr ''text''), (''slide_type'', JStr ''summary'')]"

definition scenario_world :: "string \<Rightarrow> json \<Rightarrow> world" where
  "scenario_world text outline =
     offline\<lparr>text_model := (\<lambda>tr topic n. Inr text),
             json_loads := (\<lambda>s. if s = text then Inr outline else Inl JSONDecodeError),
             save_file := (\<lambda>tr p. None)\<rparr>"






definition untitled_text :: string where
  "untitled_text = ''[{\"content\": \"x\"}]''"

definition untitled_outline :: json where
  "untitled_outline = JArr [JObj [(''content'', JStr ''x'')]]"







section \<open>Notions used in the statements\<close>







section \<open>Facts about the string primitives\<close>

lemma startswith_iff: "startswith p s \<longleftrightarrow> (\<exists>b. s = p @ b)"
  unfolding startswith_def
  by (metis append_eq_conv_conj append_take_drop_id)

lemma contains_iff: "contains sub s \<longleftrightarrow> (\<exists>a b. s = a @ sub @ b)"
proof (induction s)
  case Nil
  then show ?case by auto
next
  case (Cons c cs)
  show ?case
  proof
    assume "contains sub (c # cs)"
    then consider "startswith sub (c # cs)" | "contains sub cs" by auto
    then show "\<exists>a b. c # cs = a @ sub @ b"
    proof cases
      case 1
      then obtain b where "c # cs = sub @ b" by (auto simp: startswith_iff)
      then have "c # cs = [] @ sub @ b" by simp
      then show ?thesis by blast
    next
      case 2
      then obtain a b where "cs = a @ sub @ b" using Cons.IH by auto
      then have "c # cs = (c # a) @ sub @ b" by simp
      then show ?thesis by blast
    qed
  next
    assume "\<exists>a b. c # cs = a @ sub @ b"
    then obtain a b where ab: "c # cs = a @ sub @ b" by blast
    show "contains sub (c # cs)"
    proof (cases a)
      case Nil
      with ab have "startswith sub (c # cs)" by (auto simp: startswith_iff)
      then show ?thesis by simp
    next
      case (Cons x a')
      with ab have "cs = a' @ sub @ b" by simp
      then have "contains sub cs" using Cons.IH by blast
      then show ?thesis by simp
    qed
  qed
qed

lemma contains_prefix_of_needle:
  "contains (p @ q) s \<Longrightarrow> contains p s"
  unfolding contains_iff by (metis append.assoc)

lemma startswith_guard:
  assumes "c \<notin> set sep" "startswith sep (u @ c # v)"
  shows "startswith sep u"
proof -
  from assms(2) obtain b where b: "u @ c # v = sep @ b" by (auto simp: startswith_iff)
  then show ?thesis
    using assms(1)
    by (auto simp: append_eq_append_conv2 startswith_iff Cons_eq_append_conv)
qed

lemma startswith_extend: "startswith sep u \<Longrightarrow> startswith sep (u @ w)"
  by (auto simp: startswith_iff)

lemma contains_guard:
  "c \<notin> set sep \<Longrightarrow> contains sep (a @ c # b) \<longleftrightarrow> contains sep a \<or> contains sep b"
proof (induction a)
  case Nil
  then show ?case by (cases sep) (auto simp: startswith_def)
next
  case (Cons x a)
  have "startswith sep (x # a @ c # b) \<longleftrightarrow> startswith sep (x # a)"
    using startswith_guard[OF Cons.prems, of "x # a" b] startswith_extend[of sep "x # a" "c # b"]
    by auto
  with Cons show ?case by auto
qed

lemma split_nonempty: "py_split sep s \<noteq> []"
  by (induction sep s rule: py_split.induct) (auto split: list.splits)

lemma hd_split_prefix: "\<exists>r. s = hd (py_split sep s) @ r"
  by (induction sep s rule: py_split.induct) (auto split: list.splits)

lemma split_pieces_clean:
  "sep \<noteq> [] \<Longrightarrow> p \<in> set (py_split sep s) \<Longrightarrow> \<not> contains sep p"
proof (induction sep s arbitrary: p rule: py_split.induct)
  case (1 sep)
  then show ?case by auto
next
  case (2 sep c cs)
  show ?case
  proof (cases "startswith sep (c # cs)")
    case True
    with 2 show ?thesis by auto
  next
    case False
    obtain q qs where q: "py_split sep cs = q # qs"
      using split_nonempty[of sep cs] by (cases "py_split sep cs") auto
    from hd_split_prefix[of cs sep] q obtain r where r: "cs = q @ r" by auto
    have "\<not> startswith sep (c # q)"
      using False r startswith_extend[of sep "c # q" r] by auto
    moreover have "\<not> contains sep q" using 2(2)[of q] False 2(3) q by auto
    ultimately have "\<not> contains sep (c # q)" by simp
    moreover have "\<And>p. p \<in> set qs \<Longrightarrow> \<not> contains sep p"
      using 2(2) False 2(3) q by auto
    ultimately show ?thesis using 2(4) False q by auto
  qed
qed

lemma split_two_pieces:
  "sep \<noteq> [] \<Longrightarrow> contains sep s \<Longrightarrow> 2 \<le> length (py_split sep s)"
proof (induction sep s rule: py_split.induct)
  case (1 sep)
  then show ?case by auto
next
  case (2 sep c cs)
  show ?case
  proof (cases "startswith sep (c # cs)")
    case True
    with 2(3) show ?thesis
      using split_nonempty[of sep "drop (length sep) (c # cs)"]
      by (cases "py_split sep (drop (length sep) (c # cs))") auto
  next
    case False
    with 2(4) have "contains sep cs" by simp
    with 2(2) False 2(3) have "2 \<le> length (py_split sep cs)" by auto
    with False show ?thesis by (auto split: list.splits)
  qed
qed

lemma split_no_occurrence: "\<not> contains sep s \<Longrightarrow> py_split sep s = [s]"
  by (induction sep s rule: py_split.induct) (auto split: list.splits)

lemma split_at_prefix: "sep \<noteq> [] \<Longrightarrow> py_split sep (sep @ r) = [] # py_split sep r"
  by (cases sep) (auto simp: startswith_def)

lemma hd_split_guard:
  "sep \<noteq> [] \<Longrightarrow> c \<notin> set sep \<Longrightarrow> \<not> contains sep a \<Longrightarrow>
   hd (py_split sep (a @ c # sep @ b)) = a @ [c]"
proof (induction a)
  case Nil
  have "\<not> startswith sep (c # sep @ b)"
    using Nil by (cases sep) (auto simp: startswith_def)
  then show ?case using Nil split_at_prefix[of sep b] by simp
next
  case (Cons x a)
  have "\<not> startswith sep (x # a @ c # sep @ b)"
    using startswith_guard[OF Cons.prems(2), of "x # a" "sep @ b"] Cons.prems(3) by auto
  moreover have "hd (py_split sep (a @ c # sep @ b)) = a @ [c]"
    using Cons by auto
  ultimately show ?case
    using split_nonempty[of sep "a @ c # sep @ b"]
    by (cases "py_split sep (a @ c # sep @ b)") auto
qed

lemma strip_infix: "\<exists>a b. s = a @ py_strip s @ b"
proof -
  let ?d = "dropWhile isspace s"
  have "s = takeWhile isspace s @ ?d" by simp
  moreover have "?d = py_strip s @ rev (takeWhile isspace (rev ?d))"
    unfolding py_strip_def by (metis rev_append rev_rev_ident takeWhile_dropWhile_id)
  ultimately show ?thesis by metis
qed

lemma contains_strip: "contains sep (py_strip s) \<Longrightarrow> contains sep s"
proof -
  assume "contains sep (py_strip s)"
  then obtain u v where uv: "py_strip s = u @ sep @ v" by (auto simp: contains_iff)
  obtain a b where "s = a @ py_strip s @ b" using strip_infix by blast
  with uv have "s = (a @ u) @ sep @ (v @ b)" by simp
  then show ?thesis unfolding contains_iff by blast
qed

lemma strip_leading: "isspace c \<Longrightarrow> py_strip (c # s) = py_strip s"
  by (simp add: py_strip_def)

lemma strip_trailing:
  assumes "isspace c"
  shows "py_strip (s @ [c]) = py_strip s"
proof (cases "\<forall>x\<in>set s. isspace x")
  case True
  then show ?thesis
    using assms by (auto simp: py_strip_def dropWhile_append dest: set_dropWhileD)
next
  case False
  then show ?thesis
    using assms by (auto simp: py_strip_def dropWhile_append)
qed

lemma strip_id: "s \<noteq> [] \<Longrightarrow> \<not> isspace (hd s) \<Longrightarrow> \<not> isspace (last s) \<Longrightarrow> py_strip s = s"
proof -
  assume a: "s \<noteq> []" "\<not> isspace (hd s)" "\<not> isspace (last s)"
  then have "dropWhile isspace s = s" by (cases s) auto
  moreover have "dropWhile isspace (rev s) = rev s"
    using a by (cases "rev s") (auto simp: last_rev hd_rev)
  ultimately show ?thesis by (simp add: py_strip_def)
qed

section \<open>Facts about fence stripping\<close>

lemma no_fence_no_json_fence: "\<not> contains ''```'' r \<Longrightarrow> \<not> contains ''```json'' r"
  using contains_prefix_of_needle[of "''```''" "''json''" r] by auto

lemma strip_fences_plain: "\<not> contains ''```'' c \<Longrightarrow> strip_fences c = Inr c"
  using no_fence_no_json_fence[of c] by (simp add: strip_fences_def)

lemma strip_fences_clean: "\<exists>r. strip_fences c = Inr r \<and> \<not> contains ''```'' r"
proof (cases "contains ''```json'' c")
  case True
  let ?ps = "py_split ''```json'' c"
  have len: "2 \<le> length ?ps" using True by (intro split_two_pieces) auto
  let ?a = "?ps ! 1"
  let ?qs = "py_split ''```'' ?a"
  have ne: "?qs \<noteq> []" by (rule split_nonempty)
  have "?qs ! 0 \<in> set ?qs" using ne by (cases ?qs) auto
  then have "\<not> contains ''```'' (?qs ! 0)" by (intro split_pieces_clean) auto
  then have "\<not> contains ''```'' (py_strip (?qs ! 0))" using contains_strip by blast
  moreover have "strip_fences c = Inr (py_strip (?qs ! 0))"
    using True len ne by (simp add: strip_fences_def index_def)
  ultimately show ?thesis by blast
next
  case False
  show ?thesis
  proof (cases "contains ''```'' c")
    case True
    let ?ps = "py_split ''```'' c"
    have len: "2 \<le> length ?ps" using True by (intro split_two_pieces) auto
    then have "?ps ! 1 \<in> set ?ps" by simp
    then have "\<not> contains ''```'' (?ps ! 1)" by (intro split_pieces_clean) auto
    then have "\<not> contains ''```'' (py_strip (?ps ! 1))" using contains_strip by blast
    moreover have "strip_fences c = Inr (py_strip (?ps ! 1))"
      using True False len by (simp add: strip_fences_def index_def)
    ultimately show ?thesis by blast
  next
    case F2: False
    then show ?thesis using False by (simp add: strip_fences_def)
  qed
qed

lemma strip_fences_wrapped:
  assumes "\<not> contains ''```'' t"
  shows "strip_fences (wrap_json_fence t) = Inr (py_strip t)"
proof -
  let ?nl = "CHR ''\<newline>''"
  let ?rest = "?nl # t @ ?nl # ''```''"
  have w: "wrap_json_fence t = ''```json'' @ ?rest" by (simp add: wrap_json_fence_def)
  have c1: "contains ''```json'' (wrap_json_fence t)"
    unfolding contains_iff w by (metis append_Nil)
  have "\<not> contains ''```json'' t" using assms by (rule no_fence_no_json_fence)
  moreover have "\<not> contains ''```json'' ''```''" by (simp add: startswith_def)
  ultimately have "\<not> contains ''```json'' (t @ ?nl # ''```'')"
    by (subst contains_guard) auto
  then have "\<not> contains ''```json'' ([] @ ?nl # t @ ?nl # ''```'')"
    by (subst contains_guard) auto
  then have "py_split ''```json'' ?rest = [?rest]"
    using split_no_occurrence[of "''```json''" ?rest] by simp
  then have s1: "py_split ''```json'' (wrap_json_fence t) = [[], ?rest]"
    unfolding w using split_at_prefix[of "''```json''" ?rest] by simp
  have "\<not> contains ''```'' ([] @ ?nl # t)" using assms by (subst contains_guard) auto
  then have "hd (py_split ''```'' ((?nl # t) @ ?nl # ''```'' @ [])) = (?nl # t) @ [?nl]"
    by (intro hd_split_guard) auto
  then have s2: "hd (py_split ''```'' ?rest) = ?nl # t @ [?nl]" by simp
  have ne: "py_split ''```'' ?rest \<noteq> []" by (rule split_nonempty)
  have sp: "isspace ?nl" by (simp add: isspace_def)
  have "py_strip (?nl # t @ [?nl]) = py_strip t"
    using strip_leading[OF sp, of "t @ [?nl]"] strip_trailing[OF sp, of t] by simp
  then show ?thesis
    using c1 s1 s2 ne
    by (simp add: strip_fences_def index_def hd_conv_nth del: py_split.simps contains.simps)
qed

lemma wrapped_strip_id: "py_strip (wrap_json_fence t) = wrap_json_fence t"
  by (rule strip_id) (auto simp: wrap_json_fence_def isspace_def)

section \<open>Facts about the renderers and the loop\<close>

declare py_split.simps [simp del]

lemma render_slide_typed:
  assumes "map_of kvs ''slide_type'' = Some (JStr ty)"
  shows "render_slide W nt i (JObj kvs) g =
     (let title_arg = (case map_of kvs ''title'' of None \<Rightarrow> JStr [] | Some v \<Rightarrow> v);
          content = (case map_of kvs ''content'' of None \<Rightarrow> JStr [] | Some v \<Rightarrow> v);
          g1 = emit (Print (MsgCreatingSlide (i + 1) nt title_arg (py_lower ty))) g
      in if py_lower ty = ''title'' then create_title_slide g1 title_arg content
         else if py_lower ty = ''image'' then
           create_image_slide W (snd (generate_image_description W g1 content)) title_arg content
             (fst (generate_image_description W g1 content))
         else if py_lower ty = ''conclusion'' then create_content_slide W g1 title_arg content False
         else create_content_slide W g1 title_arg content True)"
  using assms
  by (simp add: render_slide_def Let_def split: option.splits prod.splits)

lemma emit_slides [simp]: "slides (emit e g) = slides g"
  by (simp add: emit_def)

lemma emit_saved [simp]: "saved (emit e g) = saved g"
  by (simp add: emit_def)

lemma emit_trace [simp]: "trace (emit e g) = trace g @ [e]"
  by (simp add: emit_def)

lemma add_slide_slides [simp]: "slides (add_slide s g) = slides g @ [s]"
  by (simp add: add_slide_def)

lemma add_slide_trace [simp]: "trace (add_slide s g) = trace g"
  by (simp add: add_slide_def)











lemma place_and_remove_ok:
  "add_picture W (trace g) p = None \<Longrightarrow> os_remove W (trace g @ [AddPicture p]) p = None \<Longrightarrow>
   place_and_remove W g p = Inr (emit (FileRemove p) (emit (AddPicture p) g))"
  by (simp add: place_and_remove_def Let_def)



















section \<open>Properties of the outline generator\<close>

text \<open>
  Claim C2.  Whenever the text-generation request yields a reply, fence stripping
  succeeds on the trimmed reply; if the resulting text does not both start with \<open>[\<close> and
  end with \<open>]\<close>, \<open>generate_content_outline\<close> returns \<open>None\<close> without raising and without
  calling \<open>json.loads\<close> (the trace gains the request and the printed diagnostic only);
  if it does, \<open>json.loads\<close> is called on that text and its value, or \<open>None\<close> when it
  raises, is returned.  Hence a value other than \<open>None\<close> is returned only when the
  delimiter check passes and \<open>json.loads\<close> succeeds.
\<close>

theorem outline_array_check:
  assumes "text_model W (trace g) topic n = Inr text"
  shows "\<exists>content. strip_fences (py_strip text) = Inr content \<and>
     (\<not> (startswith ''['' content \<and> endswith '']'' content) \<longrightarrow>
        generate_content_outline W g topic n =
          Inr (JNull, g\<lparr>trace := trace g @ [TextRequest topic n, Print MsgNotJsonArray]\<rparr>)) \<and>
     (startswith ''['' content \<and> endswith '']'' content \<longrightarrow>
        (\<exists>g'. generate_content_outline W g topic n =
                 Inr (case json_loads W content of Inl e \<Rightarrow> JNull | Inr v \<Rightarrow> v, g') \<and>
              take (length (trace g) + 2) (trace g') =
                trace g @ [TextRequest topic n, JsonLoads content])) \<and>
     (\<forall>v g'. generate_content_outline W g topic n = Inr (v, g') \<and> v \<noteq> JNull \<longrightarrow>
        startswith ''['' content \<and> endswith '']'' content \<and> json_loads W content = Inr v)"
proof -
  obtain content where c: "strip_fences (py_strip text) = Inr content"
    using strip_fences_clean by blast
  show ?thesis
  proof (intro exI[of _ content] conjI impI allI)
    show "strip_fences (py_strip text) = Inr content" by (rule c)
  next
    assume "\<not> (startswith ''['' content \<and> endswith '']'' content)"
    then show "generate_content_outline W g topic n =
          Inr (JNull, g\<lparr>trace := trace g @ [TextRequest topic n, Print MsgNotJsonArray]\<rparr>)"
      using assms c by (auto simp: generate_content_outline_def emit_def)
  next
    assume ok: "startswith ''['' content \<and> endswith '']'' content"
    show "\<exists>g'. generate_content_outline W g topic n =
                 Inr (case json_loads W content of Inl e \<Rightarrow> JNull | Inr v \<Rightarrow> v, g') \<and>
              take (length (trace g) + 2) (trace g') =
                trace g @ [TextRequest topic n, JsonLoads content]"
      using assms c ok
      by (cases "json_loads W content")
         (auto simp: generate_content_outline_def emit_def outline_handler_def Let_def)
  next
    fix v g'
    assume r: "generate_content_outline W g topic n = Inr (v, g') \<and> v \<noteq> JNull"
    then show "startswith ''['' content" "endswith '']'' content" "json_loads W content = Inr v"
      using assms c
      by (auto simp: generate_content_outline_def emit_def outline_handler_def Let_def
               split: if_splits sum.splits)
  qed
qed

text \<open>
  The reply \<open>{"a":1}\<close> with a \<open>json.loads\<close> that would accept it: the outline is \<open>None\<close>
  and \<open>json.loads\<close> is not called.
\<close>

theorem outline_array_check_witness:
  "text_model object_reply (trace fresh) ''Animal Kingdom'' 3 = Inr ''{\"a\":1}'' \<and>
   json_loads object_reply ''{\"a\":1}'' = Inr (JObj [(''a'', JInt 1)]) \<and>
   generate_content_outline object_reply fresh ''Animal Kingdom'' 3 =
     Inr (JNull, fresh\<lparr>trace := [TextRequest ''Animal Kingdom'' 3, Print MsgNotJsonArray]\<rparr>)"
proof -
  have t: "text_model object_reply (trace fresh) ''Animal Kingdom'' 3 = Inr ''{\"a\":1}''"
    by (simp add: object_reply_def offline_def)
  have s: "strip_fences (py_strip ''{\"a\":1}'') = Inr ''{\"a\":1}''"
    by code_simp
  have n: "\<not> (startswith ''['' ''{\"a\":1}'' \<and> endswith '']'' ''{\"a\":1}'')"
    by (simp add: startswith_def)
  from outline_array_check[OF t] s n
  have "generate_content_outline object_reply fresh ''Animal Kingdom'' 3 =
     Inr (JNull, fresh\<lparr>trace := trace fresh @ [TextRequest ''Animal Kingdom'' 3, Print MsgNotJsonArray]\<rparr>)"
    by auto
  then show ?thesis using t by (simp add: fresh_def object_reply_def object_loads_def offline_def)
qed

text \<open>
  Claim C6, as amended.  Fence stripping never fails and is idempotent: its result holds
  no fence marker, so stripping it again returns it unchanged.  For every text \<open>t\<close>
  without a triple backtick, the reply \<open>t\<close> wrapped in a \<open>```json\<close> fence gives the same
  outcome of \<open>generate_content_outline\<close> (the same parsed value, in the order
  \<open>json.loads\<close> produced it, and the same trace) as the reply \<open>t\<close> itself.
\<close>

theorem fence_stripping:
  "(\<exists>r. strip_fences c = Inr r \<and> strip_fences r = Inr r) \<and>
   (\<not> contains ''```'' t \<longrightarrow>
      generate_content_outline (W\<lparr>text_model := (\<lambda>tr tp k. Inr (wrap_json_fence t))\<rparr>) g topic n =
      generate_content_outline (W\<lparr>text_model := (\<lambda>tr tp k. Inr t)\<rparr>) g topic n)"
proof (intro conjI impI)
  obtain r where r: "strip_fences c = Inr r" "\<not> contains ''```'' r"
    using strip_fences_clean by blast
  then show "\<exists>r. strip_fences c = Inr r \<and> strip_fences r = Inr r"
    using strip_fences_plain by blast
next
  assume t: "\<not> contains ''```'' t"
  then have "\<not> contains ''```'' (py_strip t)" using contains_strip by blast
  then have "strip_fences (py_strip t) = Inr (py_strip t)" by (rule strip_fences_plain)
  moreover have "strip_fences (py_strip (wrap_json_fence t)) = Inr (py_strip t)"
    using t by (simp add: wrapped_strip_id strip_fences_wrapped)
  ultimately show "generate_content_outline (W\<lparr>text_model := (\<lambda>tr tp k. Inr (wrap_json_fence t))\<rparr>) g topic n =
      generate_content_outline (W\<lparr>text_model := (\<lambda>tr tp k. Inr t)\<rparr>) g topic n"
    by (simp add: generate_content_outline_def Let_def)
qed

theorem fence_stripping_witness:
  "\<not> contains ''```'' '' [1]'' \<and>
   generate_content_outline (reply_world (wrap_json_fence '' [1]'')) fresh ''Animal Kingdom'' 3 =
   generate_content_outline (reply_world '' [1]'') fresh ''Animal Kingdom'' 3 \<and>
   generate_content_outline (reply_world '' [1]'') fresh ''Animal Kingdom'' 3 =
     Inr (JArr [JInt 1], fresh\<lparr>trace := [TextRequest ''Animal Kingdom'' 3, JsonLoads ''[1]'']\<rparr>)"
proof -
  have a: "\<not> contains ''```'' '' [1]''" by (simp add: startswith_def)
  have b: "generate_content_outline (reply_world '' [1]'') fresh ''Animal Kingdom'' 3 =
     Inr (JArr [JInt 1], fresh\<lparr>trace := [TextRequest ''Animal Kingdom'' 3, JsonLoads ''[1]'']\<rparr>)"
    by code_simp
  have w: "reply_world x = (offline\<lparr>json_loads := loads_one\<rparr>)\<lparr>text_model := (\<lambda>tr tp k. Inr x)\<rparr>" for x
    by (simp add: reply_world_def)
  from fence_stripping[of "[]" "'' [1]''" "offline\<lparr>json_loads := loads_one\<rparr>" fresh "''Animal Kingdom''" 3] a
  have "generate_content_outline (reply_world (wrap_json_fence '' [1]'')) fresh ''Animal Kingdom'' 3 =
   generate_content_outline (reply_world '' [1]'') fresh ''Animal Kingdom'' 3"
    unfolding w by blast
  with a b show ?thesis by blast
qed

text \<open>
  The restriction on \<open>t\<close> is needed: a reply that is itself enclosed in plain fences is
  parsed to \<open>[1]\<close>, and the same text wrapped in a \<open>```json\<close> fence yields no outline.
\<close>

theorem fence_wrap_counterexample:
  "generate_content_outline (reply_world plain_fenced) fresh ''Animal Kingdom'' 3 =
     Inr (JArr [JInt 1], fresh\<lparr>trace := [TextRequest ''Animal Kingdom'' 3, JsonLoads ''[1]'']\<rparr>) \<and>
   generate_content_outline (reply_world (wrap_json_fence plain_fenced)) fresh ''Animal Kingdom'' 3 =
     Inr (JNull, fresh\<lparr>trace := [TextRequest ''Animal Kingdom'' 3, Print MsgNotJsonArray]\<rparr>)"
  by code_simp

section \<open>Properties of the image-query generator and the photo fetcher\<close>

text \<open>
  Claim C8.  \<open>generate_image_description\<close> returns a phrase in every case and never an
  exception: when the request fails, it is the fixed phrase
  \<open>abstract technology background\<close> (the failure is only printed); otherwise it is the
  trimmed reply.
\<close>

theorem description_fallback:
  "(vision_model W (trace g) c = Inl e \<longrightarrow>
      generate_image_description W g c =
        (''abstract technology background'',
         g\<lparr>trace := trace g @ [VisionRequest c, Print (MsgDescriptionError e)]\<rparr>)) \<and>
   (vision_model W (trace g) c = Inr text \<longrightarrow>
      generate_image_description W g c = (py_strip text, g\<lparr>trace := trace g @ [VisionRequest c]\<rparr>))"
  by (simp add: generate_image_description_def emit_def)

theorem description_fallback_witness:
  "vision_model offline (trace fresh) (JStr ''- Fur'') = Inl (OtherException ''unreachable'') \<and>
   generate_image_description offline fresh (JStr ''- Fur'') =
     (''abstract technology background'',
      fresh\<lparr>trace := [VisionRequest (JStr ''- Fur''),
                       Print (MsgDescriptionError (OtherException ''unreachable''))]\<rparr>)"
proof -
  have v: "vision_model offline (trace fresh) (JStr ''- Fur'') = Inl (OtherException ''unreachable'')"
    by (simp add: offline_def)
  with description_fallback[of offline fresh "JStr ''- Fur''" "OtherException ''unreachable''"]
  show ?thesis by (simp add: fresh_def)
qed

text \<open>
  Claim C7, as amended.  \<open>download_image\<close> returns \<open>None\<close> when the API key is absent or
  empty, when the search request or its status check raises, and when \<open>photos\<close> is
  missing, empty or otherwise falsy; in the last case the function prints that no image
  was found and does not subscript the list.  When every step succeeds it writes the
  image and returns \<open>save_path\<close>.  A result other than \<open>None\<close> is \<open>save_path\<close> and arises
  only when every step has succeeded, so any other exception (a response that is not
  JSON, a malformed photo record, a failed second request or file write) also gives
  \<open>None\<close>.
\<close>

theorem download_image_outcomes:
  "((pexels_api_key W = None \<or> pexels_api_key W = Some []) \<longrightarrow>
      download_image W g query save_path = (None, emit (Print MsgNoPexelsKey) g)) \<and>
   (pexels_api_key W = Some key \<and> key \<noteq> [] \<and>
    get_checked W g (search_request key query) = (Inl e, g1) \<longrightarrow>
      download_image W g query save_path = (None, emit (Print (MsgDownloadError e)) g1)) \<and>
   (pexels_api_key W = Some key \<and> key \<noteq> [] \<and>
    get_checked W g (search_request key query) = (Inr r, g1) \<and>
    json_result r = Inr data \<and> dict_get data ''photos'' JNull = Inr photos \<and>
    \<not> truthy photos \<longrightarrow>
      download_image W g query save_path = (None, emit (Print (MsgNoImagesFound query)) g1)) \<and>
   (pexels_api_key W = Some key \<and> key \<noteq> [] \<and>
    get_checked W g (search_request key query) = (Inr r, g1) \<and>
    json_result r = Inr data \<and> dict_get data ''photos'' JNull = Inr photos \<and>
    truthy photos \<and> original_url data = Inr image_url \<and>
    get_checked W g1 (Request image_url [] []) = (Inr r2, g2) \<and>
    file_write W (trace g2) save_path (resp_content r2) = None \<longrightarrow>
      download_image W g query save_path =
        (Some save_path, emit (FileWrite save_path (resp_content r2)) g2)) \<and>
   (fst (download_image W g query save_path) \<noteq> None \<longrightarrow>
      fst (download_image W g query save_path) = Some save_path \<and>
      (\<exists>key r g1 data photos image_url r2 g2.
         pexels_api_key W = Some key \<and> key \<noteq> [] \<and>
         get_checked W g (search_request key query) = (Inr r, g1) \<and>
         json_result r = Inr data \<and> dict_get data ''photos'' JNull = Inr photos \<and>
         truthy photos \<and> original_url data = Inr image_url \<and>
         get_checked W g1 (Request image_url [] []) = (Inr r2, g2) \<and>
         file_write W (trace g2) save_path (resp_content r2) = None))"
proof (intro conjI impI)
  assume "pexels_api_key W = None \<or> pexels_api_key W = Some []"
  then show "download_image W g query save_path = (None, emit (Print MsgNoPexelsKey) g)"
    by (auto simp: download_image_def)
next
  assume "pexels_api_key W = Some key \<and> key \<noteq> [] \<and>
    get_checked W g (search_request key query) = (Inl e, g1)"
  then show "download_image W g query save_path = (None, emit (Print (MsgDownloadError e)) g1)"
    by (simp add: download_image_def download_failed_def)
next
  assume "pexels_api_key W = Some key \<and> key \<noteq> [] \<and>
    get_checked W g (search_request key query) = (Inr r, g1) \<and>
    json_result r = Inr data \<and> dict_get data ''photos'' JNull = Inr photos \<and>
    \<not> truthy photos"
  then show "download_image W g query save_path = (None, emit (Print (MsgNoImagesFound query)) g1)"
    by (simp add: download_image_def)
next
  assume "pexels_api_key W = Some key \<and> key \<noteq> [] \<and>
    get_checked W g (search_request key query) = (Inr r, g1) \<and>
    json_result r = Inr data \<and> dict_get data ''photos'' JNull = Inr photos \<and>
    truthy photos \<and> original_url data = Inr image_url \<and>
    get_checked W g1 (Request image_url [] []) = (Inr r2, g2) \<and>
    file_write W (trace g2) save_path (resp_content r2) = None"
  then show "download_image W g query save_path =
        (Some save_path, emit (FileWrite save_path (resp_content r2)) g2)"
    by (simp add: download_image_def Let_def)
next
  assume ok: "fst (download_image W g query save_path) \<noteq> None"
  then show "fst (download_image W g query save_path) = Some save_path"
    by (auto simp: download_image_def download_failed_def Let_def
             split: option.splits if_splits sum.splits prod.splits)
next
  assume ok: "fst (download_image W g query save_path) \<noteq> None"
  then show "\<exists>key r g1 data photos image_url r2 g2.
         pexels_api_key W = Some key \<and> key \<noteq> [] \<and>
         get_checked W g (search_request key query) = (Inr r, g1) \<and>
         json_result r = Inr data \<and> dict_get data ''photos'' JNull = Inr photos \<and>
         truthy photos \<and> original_url data = Inr image_url \<and>
         get_checked W g1 (Request image_url [] []) = (Inr r2, g2) \<and>
         file_write W (trace g2) save_path (resp_content r2) = None"
    by (auto simp: download_image_def download_failed_def Let_def
             split: option.splits if_splits sum.splits prod.splits)
qed

theorem download_image_outcomes_witness:
  "pexels_api_key offline = None \<and>
   download_image offline fresh ''cats'' ''temp_img.jpg'' =
     (None, fresh\<lparr>trace := [Print MsgNoPexelsKey]\<rparr>) \<and>
   dict_get empty_photos ''photos'' JNull = Inr (JArr []) \<and>
   download_image (photo_world empty_photos) fresh ''cats'' ''temp_img.jpg'' =
     (None, fresh\<lparr>trace := [HttpGet (search_request ''key'' ''cats''),
                             Print (MsgNoImagesFound ''cats'')]\<rparr>) \<and>
   download_image (photo_world one_photo) fresh ''cats'' ''temp_img.jpg'' =
     (Some ''temp_img.jpg'',
      fresh\<lparr>trace := [HttpGet (search_request ''key'' ''cats''),
                       HttpGet (Request (JStr ''https://img/1.jpg'') [] []),
                       FileWrite ''temp_img.jpg'' ''JPEG'']\<rparr>)"
proof -
  let ?g1 = "emit (HttpGet (search_request ''key'' ''cats'')) fresh"
  let ?g2 = "emit (HttpGet (Request (JStr ''https://img/1.jpg'') [] [])) ?g1"
  have k: "pexels_api_key offline = None" by (simp add: offline_def)
  have a: "download_image offline fresh ''cats'' ''temp_img.jpg'' =
             (None, emit (Print MsgNoPexelsKey) fresh)"
    using download_image_outcomes[where W = offline and g = fresh and query = "''cats''"
        and save_path = "''temp_img.jpg''"] k
    by blast
  have h3: "pexels_api_key (photo_world empty_photos) = Some ''key'' \<and> ''key'' \<noteq> [] \<and>
    get_checked (photo_world empty_photos) fresh (search_request ''key'' ''cats'') =
      (Inr (photo_response empty_photos), ?g1) \<and>
    json_result (photo_response empty_photos) = Inr empty_photos \<and>
    dict_get empty_photos ''photos'' JNull = Inr (JArr []) \<and> \<not> truthy (JArr [])"
    by code_simp
  have b: "download_image (photo_world empty_photos) fresh ''cats'' ''temp_img.jpg'' =
             (None, emit (Print (MsgNoImagesFound ''cats'')) ?g1)"
    using download_image_outcomes[where W = "photo_world empty_photos" and g = fresh
        and query = "''cats''" and save_path = "''temp_img.jpg''" and key = "''key''"
        and r = "photo_response empty_photos" and ?g1.0 = ?g1 and data = empty_photos
        and photos = "JArr []"] h3
    by blast
  have h4: "pexels_api_key (photo_world one_photo) = Some ''key'' \<and> ''key'' \<noteq> [] \<and>
    get_checked (photo_world one_photo) fresh (search_request ''key'' ''cats'') =
      (Inr (photo_response one_photo), ?g1) \<and>
    json_result (photo_response one_photo) = Inr one_photo \<and>
    dict_get one_photo ''photos'' JNull =
      Inr (JArr [JObj [(''src'', JObj [(''original'', JStr ''https://img/1.jpg'')])]]) \<and>
    truthy (JArr [JObj [(''src'', JObj [(''original'', JStr ''https://img/1.jpg'')])]]) \<and>
    original_url one_photo = Inr (JStr ''https://img/1.jpg'') \<and>
    get_checked (photo_world one_photo) ?g1 (Request (JStr ''https://img/1.jpg'') [] []) =
      (Inr (photo_response one_photo), ?g2) \<and>
    file_write (photo_world one_photo) (trace ?g2) ''temp_img.jpg''
      (resp_content (photo_response one_photo)) = None"
    by code_simp
  have c: "download_image (photo_world one_photo) fresh ''cats'' ''temp_img.jpg'' =
             (Some ''temp_img.jpg'',
              emit (FileWrite ''temp_img.jpg'' (resp_content (photo_response one_photo))) ?g2)"
    using download_image_outcomes[where W = "photo_world one_photo" and g = fresh
        and query = "''cats''" and save_path = "''temp_img.jpg''" and key = "''key''"
        and r = "photo_response one_photo" and ?g1.0 = ?g1 and data = one_photo
        and photos = "JArr [JObj [(''src'', JObj [(''original'', JStr ''https://img/1.jpg'')])]]"
        and image_url = "JStr ''https://img/1.jpg''" and ?r2.0 = "photo_response one_photo"
        and ?g2.0 = ?g2] h4
    by blast
  have d: "dict_get empty_photos ''photos'' JNull = Inr (JArr [])" using h3 by blast
  show ?thesis
    using k a b c d by (simp add: emit_def fresh_def photo_response_def)
qed

text \<open>
  \<open>None\<close> is returned in more cases than the three of the claim: here the key is present,
  the request succeeds and \<open>photos\<close> is not empty, but its first record has no \<open>src\<close>.
\<close>

theorem download_image_counterexample:
  "pexels_api_key (photo_world malformed_photos) = Some ''key'' \<and>
   get_checked (photo_world malformed_photos) fresh (search_request ''key'' ''cats'') =
     (Inr (photo_response malformed_photos), emit (HttpGet (search_request ''key'' ''cats'')) fresh) \<and>
   json_result (photo_response malformed_photos) = Inr malformed_photos \<and>
   dict_get malformed_photos ''photos'' JNull = Inr (JArr [JObj []]) \<and>
   download_image (photo_world malformed_photos) fresh ''cats'' ''temp_img.jpg'' =
     (None, fresh\<lparr>trace := [HttpGet (search_request ''key'' ''cats''),
                             Print (MsgDownloadError KeyError)]\<rparr>)"
  by code_simp

section \<open>Properties of the slide dispatch\<close>

text \<open>
  Claim C4, as amended.  For every element after the first whose \<open>slide_type\<close> is a string
  that, once lowercased, is none of \<open>title\<close>, \<open>image\<close> and \<open>conclusion\<close> (for instance
  \<open>summary\<close>), the loop calls \<open>create_content_slide\<close> with the element's title and content
  and \<open>include_image=True\<close>: the renderer and arguments used for \<open>slide_type\<close>
  \<open>content\<close>.  Only the printed progress line names the lowercased type.
\<close>

theorem unknown_type_uses_content_renderer:
  assumes "map_of kvs ''slide_type'' = Some (JStr ty)"
    and "py_lower ty \<notin> {''title'', ''image'', ''conclusion''}"
    and "dict_get (JObj kvs) ''title'' (JStr []) = Inr t"
    and "dict_get (JObj kvs) ''content'' (JStr []) = Inr c"
  shows "render_slide W nt i (JObj kvs) g =
           create_content_slide W (emit (Print (MsgCreatingSlide (i + 1) nt t (py_lower ty))) g)
             t c True \<and>
         render_slide W nt i (JObj ((''slide_type'', JStr ''content'') # kvs)) g =
           create_content_slide W (emit (Print (MsgCreatingSlide (i + 1) nt t ''content'')) g)
             t c True"
proof
  show "render_slide W nt i (JObj kvs) g =
           create_content_slide W (emit (Print (MsgCreatingSlide (i + 1) nt t (py_lower ty))) g)
             t c True"
    using assms by (auto simp: render_slide_typed Let_def split: option.splits)
  have l: "py_lower ''content'' = ''content''" by code_simp
  have "map_of ((''slide_type'', JStr ''content'') # kvs) ''slide_type'' = Some (JStr ''content'')"
    by simp
  from render_slide_typed[OF this]
  show "render_slide W nt i (JObj ((''slide_type'', JStr ''content'') # kvs)) g =
           create_content_slide W (emit (Print (MsgCreatingSlide (i + 1) nt t ''content'')) g)
             t c True"
    using assms(3,4) by (auto simp: l Let_def split: option.splits)
qed

theorem unknown_type_uses_content_renderer_witness:
  "map_of summary_spec ''slide_type'' = Some (JStr ''summary'') \<and>
   py_lower ''summary'' \<notin> {''title'', ''image'', ''conclusion''} \<and>
   render_slide offline 2 1 (JObj summary_spec) fresh =
     create_content_slide offline
       (emit (Print (MsgCreatingSlide 2 2 (JStr ''Part'') ''summary'')) fresh)
       (JStr ''Part'') (JStr ''text'') True"
proof -
  have a: "map_of summary_spec ''slide_type'' = Some (JStr ''summary'')"
    by (simp add: summary_spec_def)
  have l: "py_lower ''summary'' = ''summary''" by code_simp
  have b: "py_lower ''summary'' \<notin> {''title'', ''image'', ''conclusion''}"
    unfolding l by simp
  have c: "dict_get (JObj summary_spec) ''title'' (JStr []) = Inr (JStr ''Part'')"
    by (simp add: summary_spec_def)
  have d: "dict_get (JObj summary_spec) ''content'' (JStr []) = Inr (JStr ''text'')"
    by (simp add: summary_spec_def)
  from unknown_type_uses_content_renderer[OF a b c d, of offline 2 1 fresh]
  show ?thesis using a b by (simp add: l numeral_2_eq_2)
qed

text \<open>
  Without lowercasing the claim fails: \<open>Title\<close> is none of the three strings, and the
  element is rendered by \<open>create_title_slide\<close>, not by \<open>create_content_slide\<close>.
\<close>

theorem capital_title_counterexample:
  "''Title'' \<notin> {''title'', ''image'', ''conclusion''} \<and>
   render_slide offline 2 1 capital_title_spec fresh =
     create_title_slide (emit (Print (MsgCreatingSlide 2 2 (JStr ''Part'') ''title'')) fresh)
       (JStr ''Part'') (JStr ''text'') \<and>
   render_slide offline 2 1 capital_title_spec fresh \<noteq>
     create_content_slide offline
       (emit (Print (MsgCreatingSlide 2 2 (JStr ''Part'') ''title'')) fresh)
       (JStr ''Part'') (JStr ''text'') True"
  by code_simp

text \<open>
  Claim C9.  The dispatch is case-insensitive: two elements after the first whose
  \<open>slide_type\<close> strings have the same lowercase form, and whose title and content agree,
  are rendered identically; so \<open>Title\<close>, \<open>IMAGE\<close> and \<open>Conclusion\<close> go to the renderers
  of \<open>title\<close>, \<open>image\<close> and \<open>conclusion\<close>.
\<close>

theorem slide_type_case_insensitive:
  assumes "map_of kvs ''slide_type'' = Some (JStr a)"
    and "map_of kvs' ''slide_type'' = Some (JStr b)"
    and "py_lower a = py_lower b"
    and "map_of kvs ''title'' = map_of kvs' ''title''"
    and "map_of kvs ''content'' = map_of kvs' ''content''"
  shows "render_slide W nt i (JObj kvs) g = render_slide W nt i (JObj kvs') g"
  unfolding render_slide_typed[OF assms(1)] render_slide_typed[OF assms(2)] assms(3,4,5)
  by (rule refl)

theorem slide_type_case_insensitive_witness:
  "py_lower ''Title'' = ''title'' \<and> py_lower ''IMAGE'' = ''image'' \<and>
   py_lower ''Conclusion'' = ''conclusion'' \<and>
   render_slide offline 2 1 (JObj shouting_image_spec) fresh =
   render_slide offline 2 1 (JObj quiet_image_spec) fresh \<and>
   (case render_slide offline 2 1 (JObj quiet_image_spec) fresh of
      Inl e \<Rightarrow> False
    | Inr g' \<Rightarrow> map layout (slides g') = [5])"
proof -
  have l: "py_lower ''Title'' = ''title''" "py_lower ''IMAGE'' = ''image''"
    "py_lower ''Conclusion'' = ''conclusion''" "py_lower ''image'' = ''image''"
    by code_simp+
  have "render_slide offline 2 1 (JObj shouting_image_spec) fresh =
        render_slide offline 2 1 (JObj quiet_image_spec) fresh"
    by (rule slide_type_case_insensitive[where a = "''IMAGE''" and b = "''image''"])
       (simp_all add: shouting_image_spec_def quiet_image_spec_def l)
  moreover have "case render_slide offline 2 1 (JObj quiet_image_spec) fresh of
      Inl e \<Rightarrow> False
    | Inr g' \<Rightarrow> map layout (slides g') = [5]"
    by code_simp
  ultimately show ?thesis using l by blast
qed



section \<open>Properties of the build\<close>







text \<open>
  Claim C3 does not hold of the code.  The outline \<open>[{"content": "x"}]\<close> passes the
  non-empty check, and \<open>outline[0]['title']\<close> then raises \<open>KeyError\<close>, which leaves
  \<open>generate_presentation\<close>: no slide is emitted and nothing is saved.
\<close>

theorem missing_title_aborts:
  "generate_content_outline (scenario_world untitled_text untitled_outline)
     (emit (Print MsgGeneratingOutline) fresh) ''Animal Kingdom'' 1 =
     Inr (untitled_outline,
          fresh\<lparr>trace := [Print MsgGeneratingOutline, TextRequest ''Animal Kingdom'' 1,
                           JsonLoads untitled_text]\<rparr>) \<and>
   truthy untitled_outline \<and> py_len untitled_outline = Inr 1 \<and>
   generate_presentation (scenario_world untitled_text untitled_outline) fresh
     ''Animal Kingdom'' 1 ''presentation.pptx'' = Inl KeyError"
proof -
  have "generate_content_outline (scenario_world untitled_text untitled_outline)
     (emit (Print MsgGeneratingOutline) fresh) ''Animal Kingdom'' 1 =
     Inr (untitled_outline,
          fresh\<lparr>trace := [Print MsgGeneratingOutline, TextRequest ''Animal Kingdom'' 1,
                           JsonLoads untitled_text]\<rparr>)"
    by code_simp
  moreover have "truthy untitled_outline \<and> py_len untitled_outline = Inr 1"
    by (simp add: untitled_outline_def)
  moreover have "generate_presentation (scenario_world untitled_text untitled_outline) fresh
     ''Animal Kingdom'' 1 ''presentation.pptx'' = Inl KeyError"
    by code_simp
  ultimately show ?thesis by blast
qed

text \<open>At that input no presentation file is returned.\<close>

theorem missing_title_aborts_witness:
  "\<not> (\<exists>g'. generate_presentation (scenario_world untitled_text untitled_outline) fresh
            ''Animal Kingdom'' 1 ''presentation.pptx'' = Inr (Some ''presentation.pptx'', g'))"
  using missing_title_aborts by simp

end
